theory Spec2Isabelle
  imports Main "HOL-Library.Char_ord" "HOL-Library.List_Lexorder" "HOL-Library.Multiset"
begin

section \<open>The attendance backend (frontend/backend/app.py)\<close>

text \<open>
  The backend is a Flask application over three SQLite tables. Each route handler
  becomes a function from the request (session, path argument, JSON body, values drawn
  from the clock and from \<^verbatim>\<open>os.urandom\<close>) and the store to a response and the new
  store. A handler that raises inside its \<^verbatim>\<open>try\<close> block answers 500 and commits
  nothing, so the store it returns is the one it was given.

  Strings are HOL strings, one \<open>char\<close> per character; text is taken to be ASCII, on
  which \<open>lower\<close> below agrees with Python's \<^verbatim>\<open>str.lower\<close> and \<open>length\<close> with \<^verbatim>\<open>len\<close>.
  A JSON body is an object whose fields are absent, \<^verbatim>\<open>null\<close> or a string.
\<close>

subsection \<open>Tables\<close>

text \<open>The rows of \<^verbatim>\<open>users\<close>, \<^verbatim>\<open>events\<close> and \<^verbatim>\<open>attendance\<close>, as \<^verbatim>\<open>init_db\<close> creates
  them. A column without \<^verbatim>\<open>NOT NULL\<close> holds an option. The fields carry the column
  names behind a letter for the table.\<close>

record user =
  u_id :: string
  u_student_id :: "string option"
  u_first_name :: string
  u_last_name :: string
  u_email :: string
  u_password :: string
  u_role :: string
  u_status :: string
  u_profile_photo :: "string option"
  u_qr_code :: "string option"
  u_created_at :: string

record event =
  e_id :: string
  e_name :: string
  e_description :: string
  e_date :: string
  e_start_time :: string
  e_end_time :: string
  e_status :: string
  e_created_at :: string

record attendance_row =
  a_id :: string
  a_event_id :: string
  a_student_id :: string
  a_student_name :: string
  a_student_photo :: "string option"
  a_timestamp :: string

text \<open>The database: each table is the list of its rows in insertion order.\<close>

record store =
  users :: "user list"
  events :: "event list"
  attendance :: "attendance_row list"

definition empty_store :: store where
  "empty_store = \<lparr>users = [], events = [], attendance = []\<rparr>"

subsection \<open>Requests and responses\<close>

text \<open>The Flask session: the keys \<^verbatim>\<open>user_id\<close> and \<^verbatim>\<open>role\<close>, each present or not.\<close>

record session =
  s_user_id :: "string option"
  s_role :: "string option"

text \<open>A field of a JSON body.\<close>

datatype jfield = Missing | JNull | JStr string

text \<open>\<^verbatim>\<open>data.get(key)\<close>: \<^verbatim>\<open>None\<close> for an absent key and for \<^verbatim>\<open>null\<close>.\<close>

fun dict_get :: "jfield \<Rightarrow> string option" where
  "dict_get Missing = None"
| "dict_get JNull = None"
| "dict_get (JStr s) = Some s"

text \<open>\<^verbatim>\<open>key in data\<close>.\<close>

fun dict_has :: "jfield \<Rightarrow> bool" where
  "dict_has Missing = False"
| "dict_has JNull = True"
| "dict_has (JStr s) = True"

text \<open>\<^verbatim>\<open>data[key]\<close> for a key that is present: the value bound to the SQL parameter.\<close>

fun dict_value :: "jfield \<Rightarrow> string option" where
  "dict_value Missing = None"
| "dict_value JNull = None"
| "dict_value (JStr s) = Some s"

text \<open>Python's \<^verbatim>\<open>not x\<close> for \<^verbatim>\<open>x\<close> a string or \<^verbatim>\<open>None\<close>.\<close>

fun falsy :: "string option \<Rightarrow> bool" where
  "falsy None = True"
| "falsy (Some s) = (s = [])"

text \<open>The values a handler draws from \<^verbatim>\<open>datetime.now()\<close> and \<^verbatim>\<open>os.urandom(4)\<close>:
  the integer timestamp in decimal, the eight hex digits, and the ISO time.\<close>

record env =
  now_timestamp :: string
  urandom_hex :: string
  now_isoformat :: string

text \<open>The user dictionary of \<^verbatim>\<open>login\<close> (nine keys) and of \<^verbatim>\<open>get_user\<close> (with
  \<^verbatim>\<open>created_at\<close>).\<close>

record user_data =
  d_id :: string
  d_student_id :: "string option"
  d_first_name :: string
  d_last_name :: string
  d_email :: string
  d_role :: string
  d_status :: string
  d_profile_photo :: "string option"
  d_qr_code :: "string option"

record user_data_full = user_data +
  d_created_at :: string

text \<open>Response bodies. \<open>Exception_text\<close> is \<^verbatim>\<open>{'error': str(e)}\<close> of a caught
  exception, whose text is not modelled.\<close>

datatype body =
  Message string
  | Error string
  | Exception_text
  | User_body user_data
  | User_full_body user_data_full
  | Event_created string string
  | Attendance_body "attendance_row list"

type_synonym response = "nat \<times> body"

subsection \<open>Strings\<close>

definition lower_char :: "char \<Rightarrow> char" where
  "lower_char c =
     (if CHR ''A'' \<le> c \<and> c \<le> CHR ''Z'' then char_of (of_char c + (32::nat)) else c)"

definition lower :: "string \<Rightarrow> string" where
  "lower s = map lower_char s"

subsection \<open>SQL statements\<close>

text \<open>\<^verbatim>\<open>SELECT * FROM users WHERE id = ?\<close> with \<^verbatim>\<open>fetchone\<close>: the first such row.\<close>

definition select_user_by_id :: "string \<Rightarrow> user list \<Rightarrow> user option" where
  "select_user_by_id uid us = find (\<lambda>u. u_id u = uid) us"

definition select_user_by_email :: "string \<Rightarrow> user list \<Rightarrow> user option" where
  "select_user_by_email em us = find (\<lambda>u. u_email u = em) us"

definition select_user_by_student_id :: "string \<Rightarrow> user list \<Rightarrow> user option" where
  "select_user_by_student_id sid us = find (\<lambda>u. u_student_id u = Some sid) us"

definition select_user_by_login :: "string \<Rightarrow> string \<Rightarrow> user list \<Rightarrow> user option" where
  "select_user_by_login em pw us = find (\<lambda>u. u_email u = em \<and> u_password u = pw) us"

definition select_attendance_pair ::
  "string \<Rightarrow> string \<Rightarrow> attendance_row list \<Rightarrow> attendance_row option" where
  "select_attendance_pair eid sid rs =
     find (\<lambda>r. a_event_id r = eid \<and> a_student_id r = sid) rs"

text \<open>\<^verbatim>\<open>INSERT INTO users\<close>: \<open>None\<close> is \<^verbatim>\<open>sqlite3.IntegrityError\<close>, raised when the
  primary key, the email or a student id that is not NULL is already in the table.\<close>

definition insert_user :: "user \<Rightarrow> user list \<Rightarrow> user list option" where
  "insert_user u us =
     (if list_ex (\<lambda>v. u_id v = u_id u) us then None
      else if list_ex (\<lambda>v. u_email v = u_email u) us then None
      else if u_student_id u \<noteq> None \<and> list_ex (\<lambda>v. u_student_id v = u_student_id u) us
        then None
      else Some (us @ [u]))"

definition insert_event :: "event \<Rightarrow> event list \<Rightarrow> event list option" where
  "insert_event e es = (if list_ex (\<lambda>v. e_id v = e_id e) es then None else Some (es @ [e]))"

definition insert_attendance ::
  "attendance_row \<Rightarrow> attendance_row list \<Rightarrow> attendance_row list option" where
  "insert_attendance r rs =
     (if list_ex (\<lambda>v. a_id v = a_id r) rs then None else Some (rs @ [r]))"

text \<open>\<^verbatim>\<open>UPDATE users SET col = ?, ... WHERE id = ?\<close>. The assignments are the
  \<^verbatim>\<open>update_fields\<close> of the source with their parameters, in order.\<close>

datatype user_col =
  First_name | Last_name | Email | Password | Profile_photo | Status | Qr_code | Role

fun user_not_null :: "user_col \<Rightarrow> bool" where
  "user_not_null Profile_photo = False"
| "user_not_null Qr_code = False"
| "user_not_null c = True"

fun assign_user :: "user \<Rightarrow> user_col \<times> string option \<Rightarrow> user" where
  "assign_user u (Profile_photo, v) = u\<lparr>u_profile_photo := v\<rparr>"
| "assign_user u (Qr_code, v) = u\<lparr>u_qr_code := v\<rparr>"
| "assign_user u (First_name, Some s) = u\<lparr>u_first_name := s\<rparr>"
| "assign_user u (Last_name, Some s) = u\<lparr>u_last_name := s\<rparr>"
| "assign_user u (Email, Some s) = u\<lparr>u_email := s\<rparr>"
| "assign_user u (Password, Some s) = u\<lparr>u_password := s\<rparr>"
| "assign_user u (Status, Some s) = u\<lparr>u_status := s\<rparr>"
| "assign_user u (Role, Some s) = u\<lparr>u_role := s\<rparr>"
| "assign_user u (c, None) = u"

text \<open>With no row of that id the statement changes nothing and raises nothing. With
  one, \<open>None\<close> is \<^verbatim>\<open>sqlite3.IntegrityError\<close>: NULL into a NOT NULL column, or an email
  that another row holds.\<close>

definition update_users ::
  "(user_col \<times> string option) list \<Rightarrow> string \<Rightarrow> user list \<Rightarrow> user list option" where
  "update_users sets uid us =
     (if \<not> list_ex (\<lambda>u. u_id u = uid) us then Some us
      else if list_ex (\<lambda>(c, v). user_not_null c \<and> v = None) sets then None
      else
        (let us' = map (\<lambda>u. if u_id u = uid then foldl assign_user u sets else u) us in
         if list_ex (\<lambda>(c, v). c = Email) sets \<and>
            list_ex (\<lambda>r. u_id r = uid \<and>
              list_ex (\<lambda>v. u_id v \<noteq> uid \<and> u_email v = u_email r) us') us'
         then None
         else Some us'))"

datatype event_col = Name | Description | Date | Start_time | End_time | Event_status

fun assign_event :: "event \<Rightarrow> event_col \<times> string option \<Rightarrow> event" where
  "assign_event e (Name, Some s) = e\<lparr>e_name := s\<rparr>"
| "assign_event e (Description, Some s) = e\<lparr>e_description := s\<rparr>"
| "assign_event e (Date, Some s) = e\<lparr>e_date := s\<rparr>"
| "assign_event e (Start_time, Some s) = e\<lparr>e_start_time := s\<rparr>"
| "assign_event e (End_time, Some s) = e\<lparr>e_end_time := s\<rparr>"
| "assign_event e (Event_status, Some s) = e\<lparr>e_status := s\<rparr>"
| "assign_event e (c, None) = e"

text \<open>\<^verbatim>\<open>UPDATE events SET ... WHERE id = ?\<close>: every column written is NOT NULL.\<close>

definition update_events ::
  "(event_col \<times> string option) list \<Rightarrow> string \<Rightarrow> event list \<Rightarrow> event list option" where
  "update_events sets eid es =
     (if \<not> list_ex (\<lambda>e. e_id e = eid) es then Some es
      else if list_ex (\<lambda>(c, v). v = None) sets then None
      else Some (map (\<lambda>e. if e_id e = eid then foldl assign_event e sets else e) es))"

text \<open>\<^verbatim>\<open>ORDER BY timestamp DESC\<close>: TEXT compares bytewise, which is the lexicographic
  order of strings. SQL leaves the order of rows with equal timestamps open; here they
  keep their table order.\<close>

fun insert_desc :: "attendance_row \<Rightarrow> attendance_row list \<Rightarrow> attendance_row list" where
  "insert_desc r [] = [r]"
| "insert_desc r (x # xs) =
     (if a_timestamp r < a_timestamp x then x # insert_desc r xs else r # x # xs)"

definition order_by_timestamp_desc :: "attendance_row list \<Rightarrow> attendance_row list" where
  "order_by_timestamp_desc rs = foldr insert_desc rs []"

subsection \<open>Request bodies\<close>

text \<open>\<^verbatim>\<open>data[key]\<close> at a place where the handler has already found a string under the
  key.\<close>

fun dict_str :: "jfield \<Rightarrow> string" where
  "dict_str (JStr s) = s"
| "dict_str Missing = []"
| "dict_str JNull = []"

text \<open>The loop over \<^verbatim>\<open>required_fields\<close>: the first key whose value is absent, null or
  empty.\<close>

definition missing_field :: "(string \<times> jfield) list \<Rightarrow> string option" where
  "missing_field fs = map_option fst (find (\<lambda>(k, v). falsy (dict_get v)) fs)"

record register_data =
  r_student_id :: jfield
  r_first_name :: jfield
  r_last_name :: jfield
  r_email :: jfield
  r_password :: jfield

record login_data =
  l_email :: jfield
  l_password :: jfield

record update_user_data =
  p_first_name :: jfield
  p_last_name :: jfield
  p_email :: jfield
  p_password :: jfield
  p_profile_photo :: jfield

record event_data =
  c_name :: jfield
  c_description :: jfield
  c_date :: jfield
  c_start_time :: jfield
  c_end_time :: jfield

record update_event_data =
  q_name :: jfield
  q_description :: jfield
  q_date :: jfield
  q_start_time :: jfield
  q_end_time :: jfield
  q_status :: jfield

record mark_data =
  m_event_id :: jfield
  m_student_id :: jfield

subsection \<open>Start-up\<close>

text \<open>\<^verbatim>\<open>init_db\<close>, after the tables exist: the default admin is inserted unless a row
  has its email. \<open>None\<close> is the uncaught \<^verbatim>\<open>IntegrityError\<close> of a primary key already
  taken, with which the process does not start.\<close>

definition init_db :: "env \<Rightarrow> store \<Rightarrow> store option" where
  "init_db en st =
     (if select_user_by_email ''hckthon2026@gmail.com'' (users st) \<noteq> None then Some st
      else
        (case insert_user
            \<lparr>u_id = ''admin_'' @ now_timestamp en, u_student_id = None,
             u_first_name = ''Admin'', u_last_name = ''User'',
             u_email = ''hckthon2026@gmail.com'', u_password = ''hckthon2026'',
             u_role = ''admin'', u_status = ''verified'', u_profile_photo = None,
             u_qr_code = None, u_created_at = now_isoformat en\<rparr> (users st) of
           None \<Rightarrow> None
         | Some us \<Rightarrow> Some (st\<lparr>users := us\<rparr>)))"

subsection \<open>Auth routes\<close>

definition register :: "env \<Rightarrow> register_data \<Rightarrow> store \<Rightarrow> response \<times> store" where
  "register en data st =
     (case missing_field
         [(''student_id'', r_student_id data), (''first_name'', r_first_name data),
          (''last_name'', r_last_name data), (''email'', r_email data),
          (''password'', r_password data)] of
        Some field \<Rightarrow> ((400, Error (''Missing required field: '' @ field)), st)
      | None \<Rightarrow>
          if length (dict_str (r_password data)) < 6
          then ((400, Error ''Password must be at least 6 characters''), st)
          else if select_user_by_email (lower (dict_str (r_email data))) (users st) \<noteq> None
          then ((409, Error ''Email already registered''), st)
          else if select_user_by_student_id (dict_str (r_student_id data)) (users st) \<noteq> None
          then ((409, Error ''Student ID already registered''), st)
          else
            (case insert_user
                \<lparr>u_id = ''student_'' @ now_timestamp en @ ''_'' @ urandom_hex en,
                 u_student_id = Some (dict_str (r_student_id data)),
                 u_first_name = dict_str (r_first_name data),
                 u_last_name = dict_str (r_last_name data),
                 u_email = lower (dict_str (r_email data)),
                 u_password = dict_str (r_password data),
                 u_role = ''student'', u_status = ''pending'', u_profile_photo = None,
                 u_qr_code = None, u_created_at = now_isoformat en\<rparr> (users st) of
               None \<Rightarrow> ((500, Exception_text), st)
             | Some us \<Rightarrow>
                 ((201, Message ''Registration successful. Awaiting admin verification.''),
                  st\<lparr>users := us\<rparr>)))"

definition login_user_data :: "user \<Rightarrow> user_data" where
  "login_user_data u =
     \<lparr>d_id = u_id u, d_student_id = u_student_id u, d_first_name = u_first_name u,
      d_last_name = u_last_name u, d_email = u_email u, d_role = u_role u,
      d_status = u_status u, d_profile_photo = u_profile_photo u,
      d_qr_code = u_qr_code u\<rparr>"

text \<open>\<^verbatim>\<open>login\<close> reads the store and writes the session. \<^verbatim>\<open>data.get('email', '')\<close> is
  \<^verbatim>\<open>None\<close> for a null email, and \<^verbatim>\<open>None.lower()\<close> raises.\<close>

definition login :: "login_data \<Rightarrow> session \<Rightarrow> store \<Rightarrow> response \<times> session" where
  "login data sess st =
     (if l_email data = JNull then ((500, Exception_text), sess)
      else
        (let email = lower (dict_str (l_email data)) in
         if email = [] \<or> falsy (dict_get (l_password data))
         then ((400, Error ''Email and password required''), sess)
         else
           (case select_user_by_login email (dict_str (l_password data)) (users st) of
              None \<Rightarrow> ((401, Error ''Invalid credentials''), sess)
            | Some u \<Rightarrow>
                ((200, User_body (login_user_data u)),
                 sess\<lparr>s_user_id := Some (u_id u), s_role := Some (u_role u)\<rparr>))))"

subsection \<open>User routes\<close>

definition get_user_data :: "user \<Rightarrow> user_data_full" where
  "get_user_data u =
     \<lparr>d_id = u_id u, d_student_id = u_student_id u, d_first_name = u_first_name u,
      d_last_name = u_last_name u, d_email = u_email u, d_role = u_role u,
      d_status = u_status u, d_profile_photo = u_profile_photo u,
      d_qr_code = u_qr_code u, d_created_at = u_created_at u\<rparr>"

definition get_user :: "session \<Rightarrow> string \<Rightarrow> store \<Rightarrow> response" where
  "get_user sess user_id st =
     (if s_user_id sess \<noteq> Some user_id \<and> s_role sess \<noteq> Some ''admin''
      then (403, Error ''Unauthorized'')
      else
        (case select_user_by_id user_id (users st) of
           None \<Rightarrow> (404, Error ''User not found'')
         | Some u \<Rightarrow> (200, User_full_body (get_user_data u))))"

text \<open>The \<^verbatim>\<open>update_fields\<close> and \<^verbatim>\<open>params\<close> lists of \<^verbatim>\<open>update_user\<close>, built in the
  order of the source.\<close>

definition update_fields :: "update_user_data \<Rightarrow> (user_col \<times> string option) list" where
  "update_fields data =
     (if dict_has (p_first_name data) then [(First_name, dict_value (p_first_name data))]
      else []) @
     (if dict_has (p_last_name data) then [(Last_name, dict_value (p_last_name data))]
      else []) @
     (if dict_has (p_email data) then [(Email, map_option lower (dict_value (p_email data)))]
      else []) @
     (if dict_has (p_password data) \<and> 6 \<le> length (dict_str (p_password data))
      then [(Password, dict_value (p_password data))] else []) @
     (if dict_has (p_profile_photo data)
      then [(Profile_photo, dict_value (p_profile_photo data))] else [])"

text \<open>A null email raises at \<^verbatim>\<open>.lower()\<close> and a null password at \<^verbatim>\<open>len\<close>, before
  any statement runs.\<close>

definition update_user ::
  "session \<Rightarrow> string \<Rightarrow> update_user_data \<Rightarrow> store \<Rightarrow> response \<times> store" where
  "update_user sess user_id data st =
     (if s_user_id sess \<noteq> Some user_id \<and> s_role sess \<noteq> Some ''admin''
      then ((403, Error ''Unauthorized''), st)
      else if p_email data = JNull \<or> p_password data = JNull
      then ((500, Exception_text), st)
      else if update_fields data = [] then ((400, Error ''No fields to update''), st)
      else
        (case update_users (update_fields data) user_id (users st) of
           None \<Rightarrow> ((500, Exception_text), st)
         | Some us \<Rightarrow> ((200, Message ''Profile updated successfully''), st\<lparr>users := us\<rparr>)))"

definition delete_user :: "session \<Rightarrow> string \<Rightarrow> store \<Rightarrow> response \<times> store" where
  "delete_user sess user_id st =
     (if s_role sess \<noteq> Some ''admin'' then ((403, Error ''Unauthorized''), st)
      else
        ((200, Message ''User deleted successfully''),
         st\<lparr>attendance := filter (\<lambda>r. a_student_id r \<noteq> user_id) (attendance st),
            users := filter (\<lambda>u. u_id u \<noteq> user_id) (users st)\<rparr>))"

definition verify_user :: "session \<Rightarrow> string \<Rightarrow> jfield \<Rightarrow> store \<Rightarrow> response \<times> store" where
  "verify_user sess user_id qr_code st =
     (if s_role sess \<noteq> Some ''admin'' then ((403, Error ''Unauthorized''), st)
      else if falsy (dict_get qr_code) then ((400, Error ''QR code required''), st)
      else
        (case update_users [(Status, Some ''verified''), (Qr_code, dict_get qr_code)]
            user_id (users st) of
           None \<Rightarrow> ((500, Exception_text), st)
         | Some us \<Rightarrow> ((200, Message ''User verified successfully''), st\<lparr>users := us\<rparr>)))"

definition update_user_role :: "session \<Rightarrow> string \<Rightarrow> jfield \<Rightarrow> store \<Rightarrow> response \<times> store" where
  "update_user_role sess user_id role st =
     (if s_role sess \<noteq> Some ''admin'' then ((403, Error ''Unauthorized''), st)
      else if dict_get role \<noteq> Some ''student'' \<and> dict_get role \<noteq> Some ''admin''
      then ((400, Error ''Invalid role''), st)
      else
        (case update_users [(Role, dict_get role)] user_id (users st) of
           None \<Rightarrow> ((500, Exception_text), st)
         | Some us \<Rightarrow> ((200, Message ''Role updated successfully''), st\<lparr>users := us\<rparr>)))"

subsection \<open>Event routes\<close>

definition create_event :: "env \<Rightarrow> session \<Rightarrow> event_data \<Rightarrow> store \<Rightarrow> response \<times> store" where
  "create_event en sess data st =
     (if s_role sess \<noteq> Some ''admin'' then ((403, Error ''Unauthorized''), st)
      else
        (case missing_field
            [(''name'', c_name data), (''description'', c_description data),
             (''date'', c_date data), (''start_time'', c_start_time data),
             (''end_time'', c_end_time data)] of
           Some field \<Rightarrow> ((400, Error (''Missing required field: '' @ field)), st)
         | None \<Rightarrow>
             (let event_id = ''event_'' @ now_timestamp en @ ''_'' @ urandom_hex en in
              case insert_event
                  \<lparr>e_id = event_id, e_name = dict_str (c_name data),
                   e_description = dict_str (c_description data),
                   e_date = dict_str (c_date data),
                   e_start_time = dict_str (c_start_time data),
                   e_end_time = dict_str (c_end_time data), e_status = ''active'',
                   e_created_at = now_isoformat en\<rparr> (events st) of
                None \<Rightarrow> ((500, Exception_text), st)
              | Some es \<Rightarrow>
                  ((201, Event_created ''Event created successfully'' event_id),
                   st\<lparr>events := es\<rparr>))))"

definition event_update_fields :: "update_event_data \<Rightarrow> (event_col \<times> string option) list" where
  "event_update_fields data =
     map (\<lambda>(c, v). (c, dict_value v))
       (filter (\<lambda>(c, v). dict_has v)
          [(Name, q_name data), (Description, q_description data), (Date, q_date data),
           (Start_time, q_start_time data), (End_time, q_end_time data),
           (Event_status, q_status data)])"

definition update_event ::
  "session \<Rightarrow> string \<Rightarrow> update_event_data \<Rightarrow> store \<Rightarrow> response \<times> store" where
  "update_event sess event_id data st =
     (if s_role sess \<noteq> Some ''admin'' then ((403, Error ''Unauthorized''), st)
      else if event_update_fields data = [] then ((400, Error ''No fields to update''), st)
      else
        (case update_events (event_update_fields data) event_id (events st) of
           None \<Rightarrow> ((500, Exception_text), st)
         | Some es \<Rightarrow> ((200, Message ''Event updated successfully''), st\<lparr>events := es\<rparr>)))"

definition delete_event :: "session \<Rightarrow> string \<Rightarrow> store \<Rightarrow> response \<times> store" where
  "delete_event sess event_id st =
     (if s_role sess \<noteq> Some ''admin'' then ((403, Error ''Unauthorized''), st)
      else
        ((200, Message ''Event deleted successfully''),
         st\<lparr>attendance := filter (\<lambda>r. a_event_id r \<noteq> event_id) (attendance st),
            events := filter (\<lambda>e. e_id e \<noteq> event_id) (events st)\<rparr>))"

subsection \<open>Attendance routes\<close>

text \<open>The query arguments \<^verbatim>\<open>event_id\<close> and \<^verbatim>\<open>student_id\<close> are strings or absent; the
  dictionaries returned hold all six columns of a row.\<close>

definition get_attendance :: "string option \<Rightarrow> string option \<Rightarrow> store \<Rightarrow> response" where
  "get_attendance event_id student_id st =
     (200, Attendance_body
        (order_by_timestamp_desc
           (if \<not> falsy event_id
            then filter (\<lambda>r. Some (a_event_id r) = event_id) (attendance st)
            else if \<not> falsy student_id
            then filter (\<lambda>r. Some (a_student_id r) = student_id) (attendance st)
            else attendance st)))"

definition mark_attendance :: "env \<Rightarrow> session \<Rightarrow> mark_data \<Rightarrow> store \<Rightarrow> response \<times> store" where
  "mark_attendance en sess data st =
     (if s_role sess \<noteq> Some ''admin'' then ((403, Error ''Unauthorized''), st)
      else if falsy (dict_get (m_event_id data)) \<or> falsy (dict_get (m_student_id data))
      then ((400, Error ''Event ID and Student ID required''), st)
      else
        (let event_id = dict_str (m_event_id data);
             student_id = dict_str (m_student_id data) in
         if select_attendance_pair event_id student_id (attendance st) \<noteq> None
         then ((409, Error ''Attendance already marked''), st)
         else
           (case select_user_by_id student_id (users st) of
              None \<Rightarrow> ((404, Error ''Student not found or not verified''), st)
            | Some student \<Rightarrow>
                if u_status student \<noteq> ''verified''
                then ((404, Error ''Student not found or not verified''), st)
                else
                  (case insert_attendance
                      \<lparr>a_id = ''attendance_'' @ now_timestamp en @ ''_'' @ urandom_hex en,
                       a_event_id = event_id, a_student_id = student_id,
                       a_student_name = u_first_name student @ '' '' @ u_last_name student,
                       a_student_photo = u_profile_photo student,
                       a_timestamp = now_isoformat en\<rparr> (attendance st) of
                     None \<Rightarrow> ((500, Exception_text), st)
                   | Some rs \<Rightarrow>
                       ((201, Message ''Attendance marked successfully''),
                        st\<lparr>attendance := rs\<rparr>)))))"

definition delete_attendance :: "session \<Rightarrow> string \<Rightarrow> store \<Rightarrow> response \<times> store" where
  "delete_attendance sess attendance_id st =
     (if s_role sess \<noteq> Some ''admin'' then ((403, Error ''Unauthorized''), st)
      else
        ((200, Message ''Attendance record deleted''),
         st\<lparr>attendance := filter (\<lambda>r. a_id r \<noteq> attendance_id) (attendance st)\<rparr>))"

subsection \<open>Runs of the server\<close>

text \<open>Everything that writes to the database: a start of the process and the ten
  writing routes, each with its inputs. A session is any session at all.\<close>

datatype request =
  Startup env
  | Register env register_data
  | Update_user session string update_user_data
  | Delete_user session string
  | Verify_user session string jfield
  | Update_user_role session string jfield
  | Create_event env session event_data
  | Update_event session string update_event_data
  | Delete_event session string
  | Mark_attendance env session mark_data
  | Delete_attendance session string

fun handle :: "request \<Rightarrow> store \<Rightarrow> store" where
  "handle (Startup en) st = (case init_db en st of None \<Rightarrow> st | Some st' \<Rightarrow> st')"
| "handle (Register en data) st = snd (register en data st)"
| "handle (Update_user sess uid data) st = snd (update_user sess uid data st)"
| "handle (Delete_user sess uid) st = snd (delete_user sess uid st)"
| "handle (Verify_user sess uid qr) st = snd (verify_user sess uid qr st)"
| "handle (Update_user_role sess uid role) st = snd (update_user_role sess uid role st)"
| "handle (Create_event en sess data) st = snd (create_event en sess data st)"
| "handle (Update_event sess eid data) st = snd (update_event sess eid data st)"
| "handle (Delete_event sess eid) st = snd (delete_event sess eid st)"
| "handle (Mark_attendance en sess data) st = snd (mark_attendance en sess data st)"
| "handle (Delete_attendance sess aid) st = snd (delete_attendance sess aid st)"

text \<open>The store after a sequence of requests.\<close>

fun run :: "request list \<Rightarrow> store \<Rightarrow> store" where
  "run [] st = st"
| "run (r # rs) st = run rs (handle r st)"

subsection \<open>Predicates of the properties\<close>

text \<open>The student id resolves to a stored user whose status is \<^verbatim>\<open>verified\<close>.\<close>

definition student_verified :: "store \<Rightarrow> string \<Rightarrow> bool" where
  "student_verified st sid =
     (case select_user_by_id sid (users st) of
        None \<Rightarrow> False
      | Some u \<Rightarrow> u_status u = ''verified'')"

text \<open>The attendance records of a pair of event and student.\<close>

definition records_of :: "store \<Rightarrow> string \<Rightarrow> string \<Rightarrow> attendance_row list" where
  "records_of st eid sid =
     filter (\<lambda>r. a_event_id r = eid \<and> a_student_id r = sid) (attendance st)"

definition emails_lower :: "store \<Rightarrow> bool" where
  "emails_lower st = list_all (\<lambda>u. lower (u_email u) = u_email u) (users st)"

text \<open>At most one attendance record for each pair of event and student.\<close>

definition one_per_pair :: "store \<Rightarrow> bool" where
  "one_per_pair st = distinct (map (\<lambda>r. (a_event_id r, a_student_id r)) (attendance st))"

definition sorted_desc :: "attendance_row list \<Rightarrow> bool" where
  "sorted_desc rs = sorted_wrt (\<lambda>a b. a_timestamp b \<le> a_timestamp a) rs"

definition admin :: "session \<Rightarrow> bool" where
  "admin sess = (s_role sess = Some ''admin'')"

text \<open>Some stored user has this email, compared without regard to case, or this
  student id.\<close>

definition duplicate_user :: "store \<Rightarrow> string \<Rightarrow> string \<Rightarrow> bool" where
  "duplicate_user st email sid =
     list_ex (\<lambda>u. lower (u_email u) = lower email \<or> u_student_id u = Some sid) (users st)"

text \<open>The id that \<^verbatim>\<open>mark_attendance\<close> draws is not yet a key of the attendance
  table.\<close>

definition fresh_attendance_id :: "env \<Rightarrow> store \<Rightarrow> bool" where
  "fresh_attendance_id en st =
     (\<not> list_ex (\<lambda>r. a_id r = ''attendance_'' @ now_timestamp en @ ''_'' @ urandom_hex en)
          (attendance st))"

subsection \<open>Example data\<close>

text \<open>A run of the server: start-up, the registration of a student, the student's
  verification by the admin, one attendance record.\<close>

definition ex_env1 :: env where
  "ex_env1 = \<lparr>now_timestamp = ''1'', urandom_hex = ''aaaaaaaa'',
     now_isoformat = ''2026-01-01T00:00:01''\<rparr>"

definition ex_env2 :: env where
  "ex_env2 = \<lparr>now_timestamp = ''2'', urandom_hex = ''bbbbbbbb'',
     now_isoformat = ''2026-01-01T00:00:02''\<rparr>"

definition ex_env3 :: env where
  "ex_env3 = \<lparr>now_timestamp = ''3'', urandom_hex = ''cccccccc'',
     now_isoformat = ''2026-01-01T00:00:03''\<rparr>"

definition ex_admin :: session where
  "ex_admin = \<lparr>s_user_id = Some ''admin_1'', s_role = Some ''admin''\<rparr>"

definition ex_student :: session where
  "ex_student = \<lparr>s_user_id = Some ''student_1_aaaaaaaa'', s_role = Some ''student''\<rparr>"

definition ex_register :: register_data where
  "ex_register = \<lparr>r_student_id = JStr ''S1'', r_first_name = JStr ''A'',
     r_last_name = JStr ''B'', r_email = JStr ''A@x.com'', r_password = JStr ''secret1''\<rparr>"

definition ex_mark :: mark_data where
  "ex_mark = \<lparr>m_event_id = JStr ''event1'', m_student_id = JStr ''student_1_aaaaaaaa''\<rparr>"

definition ex_requests_pending :: "request list" where
  "ex_requests_pending = [Startup ex_env1, Register ex_env1 ex_register]"

definition ex_requests_verified :: "request list" where
  "ex_requests_verified =
     ex_requests_pending @ [Verify_user ex_admin ''student_1_aaaaaaaa'' (JStr ''QR1'')]"

definition ex_requests_marked :: "request list" where
  "ex_requests_marked = ex_requests_verified @ [Mark_attendance ex_env2 ex_admin ex_mark]"

definition ex_pending :: store where
  "ex_pending = run ex_requests_pending empty_store"

definition ex_verified :: store where
  "ex_verified = run ex_requests_verified empty_store"

definition ex_marked :: store where
  "ex_marked = run ex_requests_marked empty_store"

subsection \<open>A further invariant and further example data\<close>

text \<open>Every attendance record is of a student who is stored and verified.\<close>

definition marked_verified :: "store \<Rightarrow> bool" where
  "marked_verified st = list_all (\<lambda>r. student_verified st (a_student_id r)) (attendance st)"

definition ex_mark2 :: mark_data where
  "ex_mark2 = \<lparr>m_event_id = JStr ''event2'', m_student_id = JStr ''student_1_aaaaaaaa''\<rparr>"

definition ex_requests_two :: "request list" where
  "ex_requests_two = ex_requests_marked @ [Mark_attendance ex_env3 ex_admin ex_mark2]"

definition ex_two :: store where
  "ex_two = run ex_requests_two empty_store"

text \<open>The student's row while pending.\<close>

definition ex_user :: user where
  "ex_user =
     \<lparr>u_id = ''student_1_aaaaaaaa'', u_student_id = Some ''S1'', u_first_name = ''A'',
      u_last_name = ''B'', u_email = ''a@x.com'', u_password = ''secret1'',
      u_role = ''student'', u_status = ''pending'', u_profile_photo = None,
      u_qr_code = None, u_created_at = ''2026-01-01T00:00:01''\<rparr>"

text \<open>A mark request with an empty event id; two registrations that repeat the stored
  email, one of them with a short password; two profile updates with a short
  password.\<close>

definition ex_mark_no_event :: mark_data where
  "ex_mark_no_event = \<lparr>m_event_id = JStr [], m_student_id = JStr ''student_1_aaaaaaaa''\<rparr>"

definition ex_register_short :: register_data where
  "ex_register_short = \<lparr>r_student_id = JStr ''S9'', r_first_name = JStr ''C'',
     r_last_name = JStr ''D'', r_email = JStr ''a@x.com'', r_password = JStr ''abc''\<rparr>"

definition ex_password_only :: update_user_data where
  "ex_password_only = \<lparr>p_first_name = Missing, p_last_name = Missing, p_email = Missing,
     p_password = JStr ''abc'', p_profile_photo = Missing\<rparr>"


text \<open>The records listed in a response.\<close>

fun response_rows :: "response \<Rightarrow> attendance_row list" where
  "response_rows (code, Attendance_body rs) = rs"
| "response_rows (code, other) = []"





section \<open>Properties\<close>

subsection \<open>Lemmas\<close>

lemma lower_char_idem: "lower_char (lower_char c) = lower_char c"
proof (cases "CHR ''A'' \<le> c \<and> c \<le> CHR ''Z''")
  case True
  then have b: "65 \<le> (of_char c :: nat)" "(of_char c :: nat) \<le> 90"
    by (simp_all add: less_eq_char_def)
  have "(of_char (char_of (of_char c + (32::nat))) :: nat) = of_char c + 32"
    using b by (simp add: of_char_of)
  then have "\<not> (char_of (of_char c + (32::nat)) \<le> CHR ''Z'')"
    using b by (simp add: less_eq_char_def)
  with True show ?thesis by (simp add: lower_char_def)
next
  case False
  then have "lower_char c = c" unfolding lower_char_def by (rule if_not_P)
  then show ?thesis by simp
qed

lemma lower_idem: "lower (lower s) = lower s"
  by (simp add: lower_def lower_char_idem)

lemma lower_Nil_iff: "lower s = [] \<longleftrightarrow> s = []"
  by (simp add: lower_def)

lemma lower_eq_Nil: "lower e = lower e' \<Longrightarrow> (e = []) = (e' = [])"
  by (metis lower_Nil_iff)

lemma lower_admin_email: "lower ''hckthon2026@gmail.com'' = ''hckthon2026@gmail.com''"
  by (simp add: lower_def lower_char_def less_eq_char_def)

lemma find_None_list_ex: "(find P xs = None) = (\<not> list_ex P xs)"
  by (induction xs) simp_all

lemma assign_email_lower:
  "lower (u_email u) = u_email u \<Longrightarrow>
   list_all (\<lambda>(c, v). c = Email \<longrightarrow> (case v of None \<Rightarrow> True | Some e \<Rightarrow> lower e = e)) sets \<Longrightarrow>
   lower (u_email (foldl assign_user u sets)) = u_email (foldl assign_user u sets)"
proof (induction sets arbitrary: u)
  case Nil
  then show ?case by simp
next
  case (Cons a sets)
  obtain c v where a: "a = (c, v)" by (cases a)
  have "lower (u_email (assign_user u (c, v))) = u_email (assign_user u (c, v))"
    using Cons.prems by (cases c; cases v) (simp_all add: a)
  then show ?case using Cons by (simp add: a)
qed

lemma update_users_emails_lower:
  assumes "update_users sets uid us = Some us'"
      and "list_all (\<lambda>u. lower (u_email u) = u_email u) us"
      and "list_all (\<lambda>(c, v). c = Email \<longrightarrow> (case v of None \<Rightarrow> True | Some e \<Rightarrow> lower e = e)) sets"
    shows "list_all (\<lambda>u. lower (u_email u) = u_email u) us'"
proof -
  have "us' = us \<or> us' = map (\<lambda>u. if u_id u = uid then foldl assign_user u sets else u) us"
    using assms(1) by (auto simp: update_users_def Let_def split: if_splits)
  then show ?thesis
    using assms(2,3) by (auto simp: list_all_iff assign_email_lower)
qed

lemma update_fields_lower:
  "list_all (\<lambda>(c, v). c = Email \<longrightarrow> (case v of None \<Rightarrow> True | Some e \<Rightarrow> lower e = e))
     (update_fields data)"
  by (cases "p_email data") (simp_all add: update_fields_def lower_idem)

lemma insert_user_emails_lower:
  "insert_user u us = Some us' \<Longrightarrow> lower (u_email u) = u_email u \<Longrightarrow>
   list_all (\<lambda>u. lower (u_email u) = u_email u) us \<Longrightarrow>
   list_all (\<lambda>u. lower (u_email u) = u_email u) us'"
  by (auto simp: insert_user_def split: if_splits)

lemma handle_emails_lower: "emails_lower st \<Longrightarrow> emails_lower (handle r st)"
proof (cases r)
  case (Startup en)
  assume "emails_lower st"
  then show ?thesis
    by (auto simp: Startup init_db_def emails_lower_def lower_admin_email
        split: option.splits if_splits dest!: insert_user_emails_lower)
next
  case (Register en data)
  assume "emails_lower st"
  then show ?thesis
    by (auto simp: Register register_def emails_lower_def lower_idem
        split: option.splits if_splits dest!: insert_user_emails_lower)
next
  case (Update_user sess uid data)
  assume "emails_lower st"
  then show ?thesis
    using update_users_emails_lower [OF _ _ update_fields_lower]
    by (auto simp: Update_user update_user_def emails_lower_def split: option.splits)
next
  case (Verify_user sess uid qr)
  assume "emails_lower st"
  then show ?thesis
    using update_users_emails_lower [of "[(Status, Some ''verified''), (Qr_code, dict_get qr)]"]
    by (auto simp: Verify_user verify_user_def emails_lower_def split: option.splits)
next
  case (Update_user_role sess uid role)
  assume "emails_lower st"
  then show ?thesis
    using update_users_emails_lower [of "[(Role, dict_get role)]"]
    by (auto simp: Update_user_role update_user_role_def emails_lower_def split: option.splits)
next
  case (Delete_user sess uid)
  assume "emails_lower st"
  then show ?thesis
    by (auto simp: Delete_user delete_user_def emails_lower_def list_all_iff)
next
  case (Create_event en sess data)
  assume "emails_lower st"
  then show ?thesis
    by (auto simp: Create_event create_event_def emails_lower_def Let_def split: option.splits)
next
  case (Update_event sess eid data)
  assume "emails_lower st"
  then show ?thesis
    by (auto simp: Update_event update_event_def emails_lower_def split: option.splits)
next
  case (Delete_event sess eid)
  assume "emails_lower st"
  then show ?thesis
    by (auto simp: Delete_event delete_event_def emails_lower_def)
next
  case (Mark_attendance en sess data)
  assume "emails_lower st"
  then show ?thesis
    by (auto simp: Mark_attendance mark_attendance_def emails_lower_def Let_def
        split: option.splits)
next
  case (Delete_attendance sess aid)
  assume "emails_lower st"
  then show ?thesis
    by (auto simp: Delete_attendance delete_attendance_def emails_lower_def)
qed

lemma run_emails_lower: "emails_lower st \<Longrightarrow> emails_lower (run rs st)"
  by (induction rs arbitrary: st) (simp_all add: handle_emails_lower)

lemma update_users_no_row:
  "\<not> list_ex (\<lambda>u. u_id u = uid) us \<Longrightarrow> update_users sets uid us = Some us"
  by (simp add: update_users_def)

lemma update_users_verify:
  "update_users [(Status, Some ''verified''), (Qr_code, Some code)] uid us =
     Some (map (\<lambda>u. if u_id u = uid then u\<lparr>u_status := ''verified'', u_qr_code := Some code\<rparr>
                     else u) us)"
proof (cases "list_ex (\<lambda>u. u_id u = uid) us")
  case True
  then show ?thesis by (simp add: update_users_def)
next
  case False
  then have "map (\<lambda>u. if u_id u = uid then u\<lparr>u_status := ''verified'', u_qr_code := Some code\<rparr>
                     else u) us = us"
    by (simp add: list_ex_iff map_idI)
  with False show ?thesis by (simp add: update_users_def)
qed

lemma find_map_update:
  "find (\<lambda>u. u_id u = uid) us = Some u \<Longrightarrow> u_id (f u) = uid \<Longrightarrow>
   find (\<lambda>u. u_id u = uid) (map (\<lambda>u. if u_id u = uid then f u else u) us) = Some (f u)"
  by (induction us) (auto split: if_splits)

lemma insert_desc_mset: "mset (insert_desc r rs) = add_mset r (mset rs)"
  by (induction rs) simp_all

lemma order_by_mset: "mset (order_by_timestamp_desc rs) = mset rs"
  by (induction rs) (simp_all add: order_by_timestamp_desc_def insert_desc_mset)

lemma insert_desc_set: "set (insert_desc r rs) = insert r (set rs)"
  by (induction rs) auto

lemma insert_desc_sorted: "sorted_desc rs \<Longrightarrow> sorted_desc (insert_desc r rs)"
  by (induction rs) (auto simp: sorted_desc_def insert_desc_set)

lemma order_by_sorted: "sorted_desc (order_by_timestamp_desc rs)"
proof (induction rs)
  case Nil
  then show ?case by (simp add: order_by_timestamp_desc_def sorted_desc_def)
next
  case (Cons r rs)
  then show ?case
    using insert_desc_sorted [of "order_by_timestamp_desc rs" r]
    by (simp add: order_by_timestamp_desc_def)
qed

lemma distinct_map_filter_pairs: "distinct (map f xs) \<Longrightarrow> distinct (map f (filter P xs))"
  by (induction xs) auto

lemma handle_one_per_pair: "one_per_pair st \<Longrightarrow> one_per_pair (handle r st)"
proof (cases r)
  case (Startup en)
  assume "one_per_pair st"
  then show ?thesis
    by (auto simp: Startup init_db_def one_per_pair_def split: option.splits if_splits)
next
  case (Register en data)
  assume "one_per_pair st"
  then show ?thesis
    by (auto simp: Register register_def one_per_pair_def split: option.splits if_splits)
next
  case (Update_user sess uid data)
  assume "one_per_pair st"
  then show ?thesis
    by (auto simp: Update_user update_user_def one_per_pair_def split: option.splits)
next
  case (Verify_user sess uid qr)
  assume "one_per_pair st"
  then show ?thesis
    by (auto simp: Verify_user verify_user_def one_per_pair_def split: option.splits)
next
  case (Update_user_role sess uid role)
  assume "one_per_pair st"
  then show ?thesis
    by (auto simp: Update_user_role update_user_role_def one_per_pair_def split: option.splits)
next
  case (Delete_user sess uid)
  assume "one_per_pair st"
  then show ?thesis
    by (auto simp: Delete_user delete_user_def one_per_pair_def distinct_map_filter_pairs)
next
  case (Create_event en sess data)
  assume "one_per_pair st"
  then show ?thesis
    by (auto simp: Create_event create_event_def one_per_pair_def Let_def split: option.splits)
next
  case (Update_event sess eid data)
  assume "one_per_pair st"
  then show ?thesis
    by (auto simp: Update_event update_event_def one_per_pair_def split: option.splits)
next
  case (Delete_event sess eid)
  assume "one_per_pair st"
  then show ?thesis
    by (auto simp: Delete_event delete_event_def one_per_pair_def distinct_map_filter_pairs)
next
  case (Mark_attendance en sess data)
  assume "one_per_pair st"
  then show ?thesis
    by (auto simp: Mark_attendance mark_attendance_def one_per_pair_def Let_def
        insert_attendance_def select_attendance_pair_def find_None_iff
        split: option.splits if_splits)
next
  case (Delete_attendance sess aid)
  assume "one_per_pair st"
  then show ?thesis
    by (auto simp: Delete_attendance delete_attendance_def one_per_pair_def
        distinct_map_filter_pairs)
qed

lemma run_one_per_pair: "one_per_pair st \<Longrightarrow> one_per_pair (run rs st)"
  by (induction rs arbitrary: st) (simp_all add: handle_one_per_pair)

lemma reachable_one_per_pair: "one_per_pair (run rs empty_store)"
  by (rule run_one_per_pair) (simp add: one_per_pair_def empty_store_def)

lemma reachable_emails_lower: "emails_lower (run rs empty_store)"
  by (rule run_emails_lower) (simp add: emails_lower_def empty_store_def)

lemma distinct_pairs_length:
  "distinct (map (\<lambda>r. (a_event_id r, a_student_id r)) rs) \<Longrightarrow>
   length (filter (\<lambda>r. a_event_id r = eid \<and> a_student_id r = sid) rs) \<le> 1"
proof (induction rs)
  case Nil
  then show ?case by simp
next
  case (Cons r rs)
  show ?case
  proof (cases "a_event_id r = eid \<and> a_student_id r = sid")
    case True
    then have "(eid, sid) \<notin> set (map (\<lambda>r. (a_event_id r, a_student_id r)) rs)"
      using Cons.prems by auto
    then have "filter (\<lambda>r. a_event_id r = eid \<and> a_student_id r = sid) rs = []"
      by (auto simp: filter_empty_conv)
    with True show ?thesis by simp
  next
    case False
    then show ?thesis using Cons by auto
  qed
qed

lemma records_of_one:
  assumes "one_per_pair st" and "select_attendance_pair eid sid (attendance st) \<noteq> None"
  shows "length (records_of st eid sid) = 1"
proof -
  have "records_of st eid sid \<noteq> []"
    using assms(2)
    by (auto simp: records_of_def select_attendance_pair_def find_None_iff filter_empty_conv)
  moreover have "length (records_of st eid sid) \<le> 1"
    using assms(1) unfolding records_of_def one_per_pair_def by (rule distinct_pairs_length)
  ultimately show ?thesis by (cases "records_of st eid sid") simp_all
qed

lemma duplicate_user_found:
  assumes "emails_lower st" and "duplicate_user st email sid"
  shows "select_user_by_email (lower email) (users st) \<noteq> None \<or>
         select_user_by_student_id sid (users st) \<noteq> None"
proof -
  obtain u where u: "u \<in> set (users st)"
      "lower (u_email u) = lower email \<or> u_student_id u = Some sid"
    using assms(2) by (auto simp: duplicate_user_def list_ex_iff)
  have "lower (u_email u) = u_email u"
    using assms(1) u(1) by (simp add: emails_lower_def list_all_iff)
  then have "u_email u = lower email \<or> u_student_id u = Some sid"
    using u(2) by auto
  then show ?thesis
    using u(1)
    by (auto simp: select_user_by_email_def select_user_by_student_id_def find_None_iff)
qed

lemma register_unchanged_or_new:
  "snd (register en data st) = st \<or>
   (select_user_by_email (lower (dict_str (r_email data))) (users st) = None \<and>
    select_user_by_student_id (dict_str (r_student_id data)) (users st) = None)"
  by (simp add: register_def split: option.splits)

lemma missing_field_strings:
  "missing_field [(k1, JStr v1), (k2, JStr v2), (k3, JStr v3), (k4, JStr v4), (k5, JStr v5)] = None
     \<longleftrightarrow> v1 \<noteq> [] \<and> v2 \<noteq> [] \<and> v3 \<noteq> [] \<and> v4 \<noteq> [] \<and> v5 \<noteq> []"
  by (simp add: missing_field_def)

lemma register_email_case:
  assumes "lower e = lower e'"
  shows "register en (rd\<lparr>r_email := JStr e\<rparr>) st = register en (rd\<lparr>r_email := JStr e'\<rparr>) st"
proof -
  have "(e = []) = (e' = [])" using assms by (rule lower_eq_Nil)
  then have "missing_field
      [(''student_id'', r_student_id rd), (''first_name'', r_first_name rd),
       (''last_name'', r_last_name rd), (''email'', JStr e), (''password'', r_password rd)] =
    missing_field
      [(''student_id'', r_student_id rd), (''first_name'', r_first_name rd),
       (''last_name'', r_last_name rd), (''email'', JStr e'), (''password'', r_password rd)]"
    by (simp add: missing_field_def)
  then show ?thesis
    using assms by (simp add: register_def cong: option.case_cong if_cong split del: if_split)
qed

lemma login_email_case:
  assumes "lower e = lower e'"
  shows "login (ld\<lparr>l_email := JStr e\<rparr>) sess st = login (ld\<lparr>l_email := JStr e'\<rparr>) sess st"
  using assms
  by (simp add: login_def Let_def cong: option.case_cong if_cong split del: if_split)

lemma update_fields_email_case:
  assumes "lower e = lower e'"
  shows "update_fields (pd\<lparr>p_email := JStr e\<rparr>) = update_fields (pd\<lparr>p_email := JStr e'\<rparr>)"
  using assms by (simp add: update_fields_def cong: if_cong split del: if_split)

lemma update_user_email_case:
  assumes "lower e = lower e'"
  shows "update_user sess uid (pd\<lparr>p_email := JStr e\<rparr>) st =
         update_user sess uid (pd\<lparr>p_email := JStr e'\<rparr>) st"
  using update_fields_email_case [OF assms, of pd]
  by (simp add: update_user_def cong: option.case_cong if_cong split del: if_split)

lemma find_append_Some: "find P xs = Some x \<Longrightarrow> find P (xs @ ys) = Some x"
  by (induction xs) (auto split: if_splits)

lemma find_filter_other:
  "(\<And>x. P x \<Longrightarrow> Q x) \<Longrightarrow> find P (filter Q xs) = find P xs"
  by (induction xs) auto

lemma find_map_id:
  "(\<And>u. u_id (g u) = u_id u) \<Longrightarrow>
   find (\<lambda>u. u_id u = x) (map g us) = map_option g (find (\<lambda>u. u_id u = x) us)"
  by (induction us) auto

lemma assign_user_id: "u_id (foldl assign_user u sets) = u_id u"
proof (induction sets arbitrary: u)
  case Nil
  then show ?case by simp
next
  case (Cons a sets)
  obtain c v where a: "a = (c, v)" by (cases a)
  have "u_id (assign_user u (c, v)) = u_id u"
    by (cases c; cases v) simp_all
  then show ?case using Cons by (simp add: a)
qed

lemma assign_user_status:
  "list_all (\<lambda>(c, v). c = Status \<longrightarrow> v = Some ''verified'') sets \<Longrightarrow>
   u_status u = ''verified'' \<Longrightarrow> u_status (foldl assign_user u sets) = ''verified''"
proof (induction sets arbitrary: u)
  case Nil
  then show ?case by simp
next
  case (Cons a sets)
  obtain c v where a: "a = (c, v)" by (cases a)
  have "u_status (assign_user u (c, v)) = ''verified''"
    using Cons.prems by (cases c; cases v) (simp_all add: a)
  then show ?case using Cons by (simp add: a)
qed

lemma update_users_verified:
  assumes "update_users sets uid us = Some us'"
      and "list_all (\<lambda>(c, v). c = Status \<longrightarrow> v = Some ''verified'') sets"
      and "student_verified (st\<lparr>users := us\<rparr>) sid"
    shows "student_verified (st\<lparr>users := us'\<rparr>) sid"
proof -
  let ?g = "\<lambda>u. if u_id u = uid then foldl assign_user u sets else u"
  have "us' = us \<or> us' = map ?g us"
    using assms(1) by (auto simp: update_users_def Let_def split: if_splits)
  moreover have "student_verified (st\<lparr>users := map ?g us\<rparr>) sid"
  proof -
    obtain u where u: "find (\<lambda>u. u_id u = sid) us = Some u" "u_status u = ''verified''"
      using assms(3) by (auto simp: student_verified_def select_user_by_id_def split: option.splits)
    have "find (\<lambda>u. u_id u = sid) (map ?g us) = Some (?g u)"
      using u(1) by (simp add: find_map_id assign_user_id)
    moreover have "u_status (?g u) = ''verified''"
      using u(2) assms(2) by (simp add: assign_user_status)
    ultimately show ?thesis
      by (simp add: student_verified_def select_user_by_id_def)
  qed
  ultimately show ?thesis using assms(3) by auto
qed

lemma insert_user_verified:
  assumes "insert_user u us = Some us'" and "student_verified (st\<lparr>users := us\<rparr>) sid"
  shows "student_verified (st\<lparr>users := us'\<rparr>) sid"
proof -
  have "us' = us @ [u]"
    using assms(1) by (auto simp: insert_user_def split: if_splits)
  then show ?thesis
    using assms(2)
    by (auto simp: student_verified_def select_user_by_id_def find_append_Some
        split: option.splits)
qed

lemma update_fields_no_status:
  "list_all (\<lambda>(c, v). c = Status \<longrightarrow> v = Some ''verified'') (update_fields data)"
  by (simp add: update_fields_def)

lemma student_verified_users:
  "users st' = users st \<Longrightarrow> student_verified st' sid = student_verified st sid"
  by (simp add: student_verified_def)

lemma marked_verified_step:
  assumes "marked_verified st"
      and "\<And>r. r \<in> set (attendance st') \<Longrightarrow>
             r \<in> set (attendance st) \<and>
             (student_verified st (a_student_id r) \<longrightarrow> student_verified st' (a_student_id r))"
    shows "marked_verified st'"
  using assms by (auto simp: marked_verified_def list_all_iff)

lemma marked_verified_users:
  assumes "marked_verified st"
      and "\<And>sid. student_verified st sid \<Longrightarrow> student_verified (st\<lparr>users := us\<rparr>) sid"
    shows "marked_verified (st\<lparr>users := us\<rparr>)"
  using assms(1) by (rule marked_verified_step) (simp add: assms(2))

lemma handle_marked_verified: "marked_verified st \<Longrightarrow> marked_verified (handle r st)"
proof (cases r)
  case (Startup en)
  assume inv: "marked_verified st"
  have "marked_verified (st\<lparr>users := us\<rparr>)" if "insert_user u (users st) = Some us" for u us
    using inv by (rule marked_verified_users) (rule insert_user_verified [OF that], simp)
  then show ?thesis
    using inv by (auto simp: Startup init_db_def split: option.splits)
next
  case (Register en data)
  assume inv: "marked_verified st"
  have "marked_verified (st\<lparr>users := us\<rparr>)" if "insert_user u (users st) = Some us" for u us
    using inv by (rule marked_verified_users) (rule insert_user_verified [OF that], simp)
  then show ?thesis
    using inv by (auto simp: Register register_def split: option.splits)
next
  case (Update_user sess uid data)
  assume inv: "marked_verified st"
  have "marked_verified (st\<lparr>users := us\<rparr>)"
    if "update_users (update_fields data) uid (users st) = Some us" for us
    using inv
    by (rule marked_verified_users)
      (rule update_users_verified [OF that update_fields_no_status], simp)
  then show ?thesis
    using inv by (auto simp: Update_user update_user_def split: option.splits)
next
  case (Verify_user sess uid qr)
  assume inv: "marked_verified st"
  have "marked_verified (st\<lparr>users := us\<rparr>)"
    if "update_users [(Status, Some ''verified''), (Qr_code, dict_get qr)] uid (users st) = Some us"
    for us
    using inv
    by (rule marked_verified_users) (rule update_users_verified [OF that], simp_all)
  then show ?thesis
    using inv by (auto simp: Verify_user verify_user_def split: option.splits)
next
  case (Update_user_role sess uid role)
  assume inv: "marked_verified st"
  have "marked_verified (st\<lparr>users := us\<rparr>)"
    if "update_users [(Role, dict_get role)] uid (users st) = Some us" for us
    using inv
    by (rule marked_verified_users) (rule update_users_verified [OF that], simp_all)
  then show ?thesis
    using inv by (auto simp: Update_user_role update_user_role_def split: option.splits)
next
  case (Delete_user sess uid)
  assume inv: "marked_verified st"
  let ?st' = "st\<lparr>attendance := filter (\<lambda>r. a_student_id r \<noteq> uid) (attendance st),
                 users := filter (\<lambda>u. u_id u \<noteq> uid) (users st)\<rparr>"
  have "student_verified ?st' sid = student_verified st sid" if "sid \<noteq> uid" for sid
    using that by (simp add: student_verified_def select_user_by_id_def find_filter_other)
  then have "marked_verified ?st'"
    by (intro marked_verified_step [OF inv]) auto
  then show ?thesis
    using inv by (simp add: Delete_user delete_user_def)
next
  case (Create_event en sess data)
  assume inv: "marked_verified st"
  have "marked_verified (st\<lparr>events := es\<rparr>)" for es
    by (rule marked_verified_step [OF inv]) (simp add: student_verified_def)
  then show ?thesis
    using inv by (auto simp: Create_event create_event_def Let_def split: option.splits)
next
  case (Update_event sess eid data)
  assume inv: "marked_verified st"
  have "marked_verified (st\<lparr>events := es\<rparr>)" for es
    by (rule marked_verified_step [OF inv]) (simp add: student_verified_def)
  then show ?thesis
    using inv by (auto simp: Update_event update_event_def split: option.splits)
next
  case (Delete_event sess eid)
  assume inv: "marked_verified st"
  have "marked_verified (st\<lparr>attendance := filter P (attendance st), events := es\<rparr>)" for P es
    by (rule marked_verified_step [OF inv]) (simp add: student_verified_def)
  then show ?thesis
    using inv by (simp add: Delete_event delete_event_def)
next
  case (Mark_attendance en sess data)
  assume inv: "marked_verified st"
  have "marked_verified (st\<lparr>attendance := rs\<rparr>)"
    if "insert_attendance r (attendance st) = Some rs" "student_verified st (a_student_id r)"
    for r rs
  proof -
    have "rs = attendance st @ [r]"
      using that(1) by (auto simp: insert_attendance_def split: if_splits)
    then show ?thesis
      using inv that(2) by (simp add: marked_verified_def student_verified_def)
  qed
  then show ?thesis
    using inv
    by (auto simp: Mark_attendance mark_attendance_def Let_def student_verified_def
        split: option.splits)
next
  case (Delete_attendance sess aid)
  assume inv: "marked_verified st"
  have "marked_verified (st\<lparr>attendance := filter P (attendance st)\<rparr>)" for P
    by (rule marked_verified_step [OF inv]) (simp add: student_verified_def)
  then show ?thesis
    using inv by (simp add: Delete_attendance delete_attendance_def)
qed

lemma run_marked_verified: "marked_verified st \<Longrightarrow> marked_verified (run rs st)"
  by (induction rs arbitrary: st) (simp_all add: handle_marked_verified)

lemma reachable_marked_verified: "marked_verified (run rs empty_store)"
  by (rule run_marked_verified) (simp add: marked_verified_def empty_store_def)

lemma unverified_no_records:
  assumes "marked_verified st" and "\<not> student_verified st sid"
  shows "records_of st eid sid = []"
  using assms by (auto simp: marked_verified_def records_of_def list_all_iff filter_empty_conv)

lemma mark_unverified_cases:
  assumes "admin sess" and "\<not> student_verified st sid"
  shows "snd (mark_attendance en sess \<lparr>m_event_id = JStr eid, m_student_id = JStr sid\<rparr> st) = st \<and>
         fst (fst (mark_attendance en sess \<lparr>m_event_id = JStr eid, m_student_id = JStr sid\<rparr> st))
           \<in> {400, 404, 409} \<and>
         (eid \<noteq> [] \<and> sid \<noteq> [] \<and> records_of st eid sid = [] \<longrightarrow>
            fst (mark_attendance en sess \<lparr>m_event_id = JStr eid, m_student_id = JStr sid\<rparr> st) =
              (404, Error ''Student not found or not verified''))"
  using assms
  by (auto simp: mark_attendance_def admin_def student_verified_def records_of_def Let_def
      select_attendance_pair_def find_None_iff filter_empty_conv split: option.splits)










subsection \<open>Marking attendance\<close>

text \<open>
  C1, as stated, does not hold: \<^verbatim>\<open>mark_attendance\<close> tests the two ids for emptiness
  before it looks the student up, so an admin's call with an empty event id for a
  pending student is answered 400, not 404.
\<close>

theorem mark_unverified_counterexample:
  "admin ex_admin \<and> \<not> student_verified ex_pending ''student_1_aaaaaaaa'' \<and>
   fst (mark_attendance ex_env2 ex_admin ex_mark_no_event ex_pending) =
     (400, Error ''Event ID and Student ID required'') \<and>
   fst (fst (mark_attendance ex_env2 ex_admin ex_mark_no_event ex_pending)) \<noteq> 404"
  by code_simp

text \<open>
  C1, amended. An admin calls mark for a student id that resolves to no stored user or
  to a user whose status is not \<^verbatim>\<open>verified\<close>. Then the store is left as it was, so no
  attendance record is added, and the answer is one of 400, 404 and 409. When both ids
  are non-empty the answer is 404 with the message of the source, on every store the
  server can reach from the empty database, and on any store at all in which the pair
  has no record yet.
\<close>

theorem mark_unverified_rejected:
  assumes "admin sess" and "\<not> student_verified st sid"
  shows "snd (mark_attendance en sess \<lparr>m_event_id = JStr eid, m_student_id = JStr sid\<rparr> st) = st \<and>
         fst (fst (mark_attendance en sess \<lparr>m_event_id = JStr eid, m_student_id = JStr sid\<rparr> st))
           \<in> {400, 404, 409} \<and>
         (eid \<noteq> [] \<and> sid \<noteq> [] \<and> (st = run reqs empty_store \<or> records_of st eid sid = []) \<longrightarrow>
            fst (mark_attendance en sess \<lparr>m_event_id = JStr eid, m_student_id = JStr sid\<rparr> st) =
              (404, Error ''Student not found or not verified''))"
proof -
  have "records_of st eid sid = []" if "st = run reqs empty_store"
    using reachable_marked_verified [of reqs] assms(2) unfolding that
    by (rule unverified_no_records)
  then have "records_of st eid sid = []"
    if "st = run reqs empty_store \<or> records_of st eid sid = []"
    using that by blast
  then show ?thesis
    using mark_unverified_cases [OF assms, of en eid] by blast
qed

theorem mark_unverified_rejected_witness:
  "admin ex_admin \<and> \<not> student_verified ex_pending ''student_1_aaaaaaaa'' \<and>
   ex_pending = run ex_requests_pending empty_store \<and>
   mark_attendance ex_env2 ex_admin
     \<lparr>m_event_id = JStr ''event1'', m_student_id = JStr ''student_1_aaaaaaaa''\<rparr> ex_pending =
     ((404, Error ''Student not found or not verified''), ex_pending)"
proof -
  have h1: "admin ex_admin" by code_simp
  have h2: "\<not> student_verified ex_pending ''student_1_aaaaaaaa''" by code_simp
  have h3: "ex_pending = run ex_requests_pending empty_store"
    by (simp add: ex_pending_def)
  note t = mark_unverified_rejected [OF h1 h2, of ex_env2 "''event1''" ex_requests_pending]
  have a: "fst (mark_attendance ex_env2 ex_admin
     \<lparr>m_event_id = JStr ''event1'', m_student_id = JStr ''student_1_aaaaaaaa''\<rparr> ex_pending) =
     (404, Error ''Student not found or not verified'')"
    using t h3 by blast
  have b: "snd (mark_attendance ex_env2 ex_admin
     \<lparr>m_event_id = JStr ''event1'', m_student_id = JStr ''student_1_aaaaaaaa''\<rparr> ex_pending) =
     ex_pending"
    using t by blast
  have c: "mark_attendance ex_env2 ex_admin
     \<lparr>m_event_id = JStr ''event1'', m_student_id = JStr ''student_1_aaaaaaaa''\<rparr> ex_pending =
     ((404, Error ''Student not found or not verified''), ex_pending)"
    by (rule prod_eqI) (simp_all only: a b fst_conv snd_conv)
  show ?thesis by (intro conjI h1 h2 h3 c)
qed

text \<open>
  C2, as stated, does not hold. The id of a new record is drawn from the clock second
  and four random bytes, and the table's primary key rejects an id it already holds. In
  the store below the pair has no record, the caller is an admin, the student is verified
  and both ids are non-empty; the first call draws the id of the stored record, its insert
  raises and it is answered 500, and the second call with the same arguments is then
  answered 201, not 409.
\<close>

theorem mark_twice_counterexample:
  "ex_marked = run ex_requests_marked empty_store \<and> admin ex_admin \<and>
   student_verified ex_marked ''student_1_aaaaaaaa'' \<and>
   records_of ex_marked ''event2'' ''student_1_aaaaaaaa'' = [] \<and>
   fst (mark_attendance ex_env2 ex_admin ex_mark2 ex_marked) = (500, Exception_text) \<and>
   fst (mark_attendance ex_env3 ex_admin ex_mark2
          (snd (mark_attendance ex_env2 ex_admin ex_mark2 ex_marked))) =
     (201, Message ''Attendance marked successfully'')"
proof -
  have h1: "ex_marked = run ex_requests_marked empty_store"
    by (simp only: ex_marked_def)
  have h2: "admin ex_admin" by code_simp
  have h3: "student_verified ex_marked ''student_1_aaaaaaaa''" by code_simp
  have h4: "records_of ex_marked ''event2'' ''student_1_aaaaaaaa'' = []" by code_simp
  have c1: "fst (mark_attendance ex_env2 ex_admin ex_mark2 ex_marked) = (500, Exception_text)"
    by code_simp
  have c2: "fst (mark_attendance ex_env3 ex_admin ex_mark2
          (snd (mark_attendance ex_env2 ex_admin ex_mark2 ex_marked))) =
     (201, Message ''Attendance marked successfully'')"
    by code_simp
  show ?thesis by (intro conjI h1 h2 h3 h4 c1 c2)
qed

text \<open>
  C2, amended. The store is one the server can reach from the empty database, the caller
  is an admin, both ids are non-empty, the student is verified, and the id drawn by the
  first call is not yet a key of the attendance table. Then a second call with the same
  arguments, whatever it draws, is answered 409, and after it the pair has exactly one
  attendance record.
\<close>

theorem mark_twice_conflict:
  assumes "st = run reqs empty_store" and "admin sess" and "eid \<noteq> []" and "sid \<noteq> []"
      and "student_verified st sid" and "fresh_attendance_id en st"
  shows "fst (mark_attendance en' sess \<lparr>m_event_id = JStr eid, m_student_id = JStr sid\<rparr>
                (snd (mark_attendance en sess \<lparr>m_event_id = JStr eid, m_student_id = JStr sid\<rparr> st))) =
           (409, Error ''Attendance already marked'') \<and>
         length (records_of
           (snd (mark_attendance en' sess \<lparr>m_event_id = JStr eid, m_student_id = JStr sid\<rparr>
                (snd (mark_attendance en sess \<lparr>m_event_id = JStr eid, m_student_id = JStr sid\<rparr> st))))
           eid sid) = 1"
proof -
  let ?d = "\<lparr>m_event_id = JStr eid, m_student_id = JStr sid\<rparr>"
  let ?id = "''attendance_'' @ now_timestamp en @ ''_'' @ urandom_hex en"
  have inv: "one_per_pair st"
    unfolding assms(1) by (rule reachable_one_per_pair)
  obtain u where u: "select_user_by_id sid (users st) = Some u" "u_status u = ''verified''"
    using assms(5) by (auto simp: student_verified_def split: option.splits)
  have conflict: "select_attendance_pair eid sid (attendance s) \<noteq> None \<Longrightarrow>
      mark_attendance en' sess ?d s = ((409, Error ''Attendance already marked''), s)" for s
    using assms(2,3,4) by (simp add: mark_attendance_def admin_def)
  show ?thesis
  proof (cases "select_attendance_pair eid sid (attendance st) = None")
    case False
    then have "mark_attendance en sess ?d st = ((409, Error ''Attendance already marked''), st)"
      using assms(2,3,4) by (simp add: mark_attendance_def admin_def)
    then show ?thesis
      using False inv by (simp add: conflict records_of_one)
  next
    case True
    let ?r = "\<lparr>a_id = ?id, a_event_id = eid, a_student_id = sid,
               a_student_name = u_first_name u @ '' '' @ u_last_name u,
               a_student_photo = u_profile_photo u, a_timestamp = now_isoformat en\<rparr>"
    let ?st1 = "st\<lparr>attendance := attendance st @ [?r]\<rparr>"
    have first: "mark_attendance en sess ?d st =
        ((201, Message ''Attendance marked successfully''), ?st1)"
      using assms(2,3,4,6) True u
      by (simp add: mark_attendance_def admin_def insert_attendance_def fresh_attendance_id_def)
    have none: "filter (\<lambda>r. a_event_id r = eid \<and> a_student_id r = sid) (attendance st) = []"
      using True by (auto simp: select_attendance_pair_def find_None_iff filter_empty_conv)
    have found: "select_attendance_pair eid sid (attendance ?st1) \<noteq> None"
      by (simp add: select_attendance_pair_def find_None_list_ex)
    have "length (records_of ?st1 eid sid) = 1"
      by (simp add: records_of_def none)
    then show ?thesis
      using conflict [OF found] by (simp add: first)
  qed
qed

theorem mark_twice_conflict_witness:
  "ex_verified = run ex_requests_verified empty_store \<and> admin ex_admin \<and>
   student_verified ex_verified ''student_1_aaaaaaaa'' \<and>
   fresh_attendance_id ex_env2 ex_verified \<and>
   fst (mark_attendance ex_env3 ex_admin
          \<lparr>m_event_id = JStr ''event1'', m_student_id = JStr ''student_1_aaaaaaaa''\<rparr>
          (snd (mark_attendance ex_env2 ex_admin
             \<lparr>m_event_id = JStr ''event1'', m_student_id = JStr ''student_1_aaaaaaaa''\<rparr>
             ex_verified))) =
     (409, Error ''Attendance already marked'') \<and>
   length (records_of
     (snd (mark_attendance ex_env3 ex_admin
          \<lparr>m_event_id = JStr ''event1'', m_student_id = JStr ''student_1_aaaaaaaa''\<rparr>
          (snd (mark_attendance ex_env2 ex_admin
             \<lparr>m_event_id = JStr ''event1'', m_student_id = JStr ''student_1_aaaaaaaa''\<rparr>
             ex_verified))))
     ''event1'' ''student_1_aaaaaaaa'') = 1"
proof -
  have h1: "ex_verified = run ex_requests_verified empty_store"
    by (simp add: ex_verified_def)
  have h2: "admin ex_admin" by code_simp
  have h3: "''event1'' \<noteq> []" and h4: "''student_1_aaaaaaaa'' \<noteq> []" by simp_all
  have h5: "student_verified ex_verified ''student_1_aaaaaaaa''" by code_simp
  have h6: "fresh_attendance_id ex_env2 ex_verified" by code_simp
  show ?thesis
    using mark_twice_conflict [OF h1 h2 h3 h4 h5 h6, of ex_env3]
    by (intro conjI h1 h2 h5 h6) simp_all
qed

subsection \<open>Verification\<close>

text \<open>
  C3, as stated, does not hold: \<^verbatim>\<open>verify_user\<close> runs its UPDATE and answers 200
  without asking whether a row was changed, so an unknown user id is not answered 404.
\<close>

theorem verify_unknown_counterexample:
  "admin ex_admin \<and> select_user_by_id ''ghost'' (users empty_store) = None \<and>
   verify_user ex_admin ''ghost'' (JStr ''QR1'') empty_store =
     ((200, Message ''User verified successfully''), empty_store)"
  by code_simp

text \<open>
  C3, amended. An admin's verify call with a non-empty code is answered 200. Every row
  of that user id gets status \<^verbatim>\<open>verified\<close> and the code as its \<^verbatim>\<open>qr_code\<close>, and
  nothing else in the store changes: when the id resolves to no stored user the store
  is left as it was, and when it resolves the stored user is the old one with the two
  columns set.
\<close>

theorem verify_user_result:
  assumes "admin sess" and "code \<noteq> []"
  shows "fst (verify_user sess uid (JStr code) st) = (200, Message ''User verified successfully'') \<and>
         snd (verify_user sess uid (JStr code) st) =
           st\<lparr>users := map (\<lambda>u. if u_id u = uid
                                then u\<lparr>u_status := ''verified'', u_qr_code := Some code\<rparr>
                                else u) (users st)\<rparr> \<and>
         (select_user_by_id uid (users st) = None \<longrightarrow>
            snd (verify_user sess uid (JStr code) st) = st) \<and>
         (\<forall>u. select_user_by_id uid (users st) = Some u \<longrightarrow>
            select_user_by_id uid (users (snd (verify_user sess uid (JStr code) st))) =
              Some (u\<lparr>u_status := ''verified'', u_qr_code := Some code\<rparr>))"
proof -
  let ?us = "map (\<lambda>u. if u_id u = uid
                       then u\<lparr>u_status := ''verified'', u_qr_code := Some code\<rparr>
                       else u) (users st)"
  have r: "verify_user sess uid (JStr code) st =
      ((200, Message ''User verified successfully''), st\<lparr>users := ?us\<rparr>)"
    using assms by (simp add: verify_user_def admin_def update_users_verify)
  have none: "select_user_by_id uid (users st) = None \<Longrightarrow> ?us = users st"
    by (simp add: select_user_by_id_def find_None_iff map_idI)
  have some: "select_user_by_id uid (users st) = Some u \<Longrightarrow>
      select_user_by_id uid ?us = Some (u\<lparr>u_status := ''verified'', u_qr_code := Some code\<rparr>)" for u
    unfolding select_user_by_id_def
    by (rule find_map_update [where f = "\<lambda>u. u\<lparr>u_status := ''verified'', u_qr_code := Some code\<rparr>"])
       (auto simp: find_Some_iff)
  show ?thesis using none some by (simp add: r)
qed

theorem verify_user_result_witness:
  "admin ex_admin \<and> select_user_by_id ''student_1_aaaaaaaa'' (users ex_pending) = Some ex_user \<and>
   fst (verify_user ex_admin ''student_1_aaaaaaaa'' (JStr ''QR1'') ex_pending) =
     (200, Message ''User verified successfully'') \<and>
   select_user_by_id ''student_1_aaaaaaaa''
     (users (snd (verify_user ex_admin ''student_1_aaaaaaaa'' (JStr ''QR1'') ex_pending))) =
     Some (ex_user\<lparr>u_status := ''verified'', u_qr_code := Some ''QR1''\<rparr>)"
proof -
  have h1: "admin ex_admin" by code_simp
  have h2: "''QR1'' \<noteq> []" by simp
  have h3: "select_user_by_id ''student_1_aaaaaaaa'' (users ex_pending) = Some ex_user"
    by code_simp
  note t = verify_user_result [OF h1 h2, of "''student_1_aaaaaaaa''" ex_pending]
  have a: "fst (verify_user ex_admin ''student_1_aaaaaaaa'' (JStr ''QR1'') ex_pending) =
     (200, Message ''User verified successfully'')"
    using t by blast
  have b: "select_user_by_id ''student_1_aaaaaaaa''
     (users (snd (verify_user ex_admin ''student_1_aaaaaaaa'' (JStr ''QR1'') ex_pending))) =
     Some (ex_user\<lparr>u_status := ''verified'', u_qr_code := Some ''QR1''\<rparr>)"
    using t h3 by blast
  show ?thesis by (intro conjI h1 h3 a b)
qed

text \<open>
  C6. A user id resolves to a stored user, an admin verifies it with a non-empty code,
  and then the user is read by a session that may read it (the user's own, or an
  admin's). The verification is answered 200, and the read is answered 200 with the
  user's data as it was before, except that the status is \<^verbatim>\<open>verified\<close> and the
  \<^verbatim>\<open>qr_code\<close> is the code.
\<close>

theorem verify_then_get_user:
  assumes "admin sess" and "code \<noteq> []"
      and "select_user_by_id uid (users st) = Some u"
      and "s_user_id sess' = Some uid \<or> admin sess'"
  shows "fst (fst (verify_user sess uid (JStr code) st)) = 200 \<and>
         get_user sess' uid (snd (verify_user sess uid (JStr code) st)) =
           (200, User_full_body
              ((get_user_data u)\<lparr>d_status := ''verified'', d_qr_code := Some code\<rparr>))"
proof -
  let ?us = "map (\<lambda>u. if u_id u = uid
                       then u\<lparr>u_status := ''verified'', u_qr_code := Some code\<rparr>
                       else u) (users st)"
  have r: "verify_user sess uid (JStr code) st =
      ((200, Message ''User verified successfully''), st\<lparr>users := ?us\<rparr>)"
    using assms(1,2) by (simp add: verify_user_def admin_def update_users_verify)
  have "u_id u = uid"
    using assms(3) by (auto simp: select_user_by_id_def find_Some_iff)
  then have "select_user_by_id uid ?us =
      Some (u\<lparr>u_status := ''verified'', u_qr_code := Some code\<rparr>)"
    using assms(3) unfolding select_user_by_id_def
    by (intro find_map_update [where f = "\<lambda>u. u\<lparr>u_status := ''verified'', u_qr_code := Some code\<rparr>"])
       simp_all
  then show ?thesis
    using assms(4) by (auto simp: r get_user_def admin_def get_user_data_def)
qed

theorem verify_then_get_user_witness:
  "admin ex_admin \<and> select_user_by_id ''student_1_aaaaaaaa'' (users ex_pending) = Some ex_user \<and>
   s_user_id ex_student = Some ''student_1_aaaaaaaa'' \<and>
   get_user ex_student ''student_1_aaaaaaaa''
     (snd (verify_user ex_admin ''student_1_aaaaaaaa'' (JStr ''QR1'') ex_pending)) =
     (200, User_full_body
        ((get_user_data ex_user)\<lparr>d_status := ''verified'', d_qr_code := Some ''QR1''\<rparr>))"
proof -
  have h1: "admin ex_admin" by code_simp
  have h2: "''QR1'' \<noteq> []" by simp
  have h3: "select_user_by_id ''student_1_aaaaaaaa'' (users ex_pending) = Some ex_user"
    by code_simp
  have h4: "s_user_id ex_student = Some ''student_1_aaaaaaaa''" by code_simp
  have h5: "s_user_id ex_student = Some ''student_1_aaaaaaaa'' \<or> admin ex_student"
    using h4 by simp
  show ?thesis
    using verify_then_get_user [OF h1 h2 h3 h5]
    by (intro conjI h1 h3 h4) simp_all
qed

subsection \<open>Deletion\<close>

text \<open>
  C4. When an admin deletes an event, the attendance table afterwards is the old one
  without the records of that event id: none of them is left, and the records of other
  events stay, in their order. The events table loses the rows of that id. The same
  holds for the deletion of a user and the records of that student id.
\<close>

theorem cascade_delete:
  assumes "admin sess"
  shows "attendance (snd (delete_event sess eid st)) =
           filter (\<lambda>r. a_event_id r \<noteq> eid) (attendance st) \<and>
         \<not> list_ex (\<lambda>r. a_event_id r = eid) (attendance (snd (delete_event sess eid st))) \<and>
         events (snd (delete_event sess eid st)) = filter (\<lambda>e. e_id e \<noteq> eid) (events st) \<and>
         attendance (snd (delete_user sess uid st)) =
           filter (\<lambda>r. a_student_id r \<noteq> uid) (attendance st) \<and>
         \<not> list_ex (\<lambda>r. a_student_id r = uid) (attendance (snd (delete_user sess uid st))) \<and>
         users (snd (delete_user sess uid st)) = filter (\<lambda>u. u_id u \<noteq> uid) (users st)"
  using assms by (simp add: delete_event_def delete_user_def admin_def list_ex_iff)

theorem cascade_delete_witness:
  "admin ex_admin \<and>
   map a_event_id (attendance ex_two) = [''event1'', ''event2''] \<and>
   map a_event_id (attendance (snd (delete_event ex_admin ''event1'' ex_two))) = [''event2''] \<and>
   attendance (snd (delete_user ex_admin ''student_1_aaaaaaaa'' ex_two)) = []"
proof -
  have h1: "admin ex_admin" by code_simp
  have e: "map a_event_id (attendance ex_two) = [''event1'', ''event2'']" by code_simp
  have f1: "map a_event_id (filter (\<lambda>r. a_event_id r \<noteq> ''event1'') (attendance ex_two)) =
      [''event2'']" by code_simp
  have f2: "filter (\<lambda>r. a_student_id r \<noteq> ''student_1_aaaaaaaa'') (attendance ex_two) = []"
    by code_simp
  show ?thesis
    using cascade_delete [OF h1, of "''event1''" ex_two "''student_1_aaaaaaaa''"] f1 f2
    by (intro conjI h1 e) simp_all
qed

text \<open>
  C8. An admin's call to delete an attendance record is answered 200 whether or not a
  record has that id. The attendance table afterwards is the old one without the
  records of that id, and nothing else changes; when no record has the id, the store is
  left as it was.
\<close>

theorem delete_attendance_permissive:
  assumes "admin sess"
  shows "fst (delete_attendance sess aid st) = (200, Message ''Attendance record deleted'') \<and>
         snd (delete_attendance sess aid st) =
           st\<lparr>attendance := filter (\<lambda>r. a_id r \<noteq> aid) (attendance st)\<rparr> \<and>
         (\<not> list_ex (\<lambda>r. a_id r = aid) (attendance st) \<longrightarrow>
            snd (delete_attendance sess aid st) = st)"
proof -
  have "\<not> list_ex (\<lambda>r. a_id r = aid) (attendance st) \<Longrightarrow>
      filter (\<lambda>r. a_id r \<noteq> aid) (attendance st) = attendance st"
    by (simp add: list_ex_iff)
  then show ?thesis using assms by (auto simp: delete_attendance_def admin_def)
qed

theorem delete_attendance_permissive_witness:
  "admin ex_admin \<and> \<not> list_ex (\<lambda>r. a_id r = ''nothing'') (attendance ex_marked) \<and>
   delete_attendance ex_admin ''nothing'' ex_marked =
     ((200, Message ''Attendance record deleted''), ex_marked)"
proof -
  have h1: "admin ex_admin" by code_simp
  have h2: "\<not> list_ex (\<lambda>r. a_id r = ''nothing'') (attendance ex_marked)" by code_simp
  note t = delete_attendance_permissive [OF h1, of "''nothing''" ex_marked]
  have a: "fst (delete_attendance ex_admin ''nothing'' ex_marked) =
     (200, Message ''Attendance record deleted'')"
    using t by blast
  have b: "snd (delete_attendance ex_admin ''nothing'' ex_marked) = ex_marked"
    using t h2 by blast
  have c: "delete_attendance ex_admin ''nothing'' ex_marked =
     ((200, Message ''Attendance record deleted''), ex_marked)"
    by (rule prod_eqI) (simp_all only: a b fst_conv snd_conv)
  show ?thesis by (intro conjI h1 h2 c)
qed

subsection \<open>Registration and emails\<close>

text \<open>
  C5, as stated, does not hold: \<^verbatim>\<open>register\<close> validates the fields before it looks
  for duplicates, so a registration that repeats a stored email with a password of
  three characters is answered 400, not 409.
\<close>

theorem register_duplicate_counterexample:
  "duplicate_user ex_pending ''a@x.com'' ''S9'' \<and>
   fst (register ex_env2 ex_register_short ex_pending) =
     (400, Error ''Password must be at least 6 characters'') \<and>
   fst (fst (register ex_env2 ex_register_short ex_pending)) \<noteq> 409"
  by code_simp

text \<open>
  C5, amended. The store is one the server can reach from the empty database, and a
  registration gives an email that equals a stored one when case is ignored, or a
  student id that equals a stored one. Then the store is left as it was, so the users
  table gains no row. When all five fields are non-empty and the password has at least
  six characters, the answer is 409.
\<close>

theorem register_duplicate_rejected:
  assumes "st = run reqs empty_store" and "duplicate_user st email sid"
  shows "snd (register en \<lparr>r_student_id = JStr sid, r_first_name = JStr fname,
                 r_last_name = JStr lname, r_email = JStr email, r_password = JStr pw\<rparr> st) = st \<and>
         (sid \<noteq> [] \<and> fname \<noteq> [] \<and> lname \<noteq> [] \<and> email \<noteq> [] \<and> 6 \<le> length pw \<longrightarrow>
            fst (fst (register en \<lparr>r_student_id = JStr sid, r_first_name = JStr fname,
                 r_last_name = JStr lname, r_email = JStr email, r_password = JStr pw\<rparr> st)) = 409)"
proof -
  let ?d = "\<lparr>r_student_id = JStr sid, r_first_name = JStr fname,
             r_last_name = JStr lname, r_email = JStr email, r_password = JStr pw\<rparr>"
  have "emails_lower st"
    unfolding assms(1) by (rule reachable_emails_lower)
  then have dup: "select_user_by_email (lower email) (users st) \<noteq> None \<or>
      select_user_by_student_id sid (users st) \<noteq> None"
    using assms(2) by (rule duplicate_user_found)
  have unchanged: "snd (register en ?d st) = st"
    using register_unchanged_or_new [of en ?d st] dup by auto
  have "fst (fst (register en ?d st)) = 409"
    if "sid \<noteq> []" "fname \<noteq> []" "lname \<noteq> []" "email \<noteq> []" "6 \<le> length pw"
  proof -
    have "missing_field
        [(''student_id'', r_student_id ?d), (''first_name'', r_first_name ?d),
         (''last_name'', r_last_name ?d), (''email'', r_email ?d),
         (''password'', r_password ?d)] = None"
      using that by (auto simp: missing_field_strings)
    then show ?thesis
      using that(5) dup by (auto simp: register_def)
  qed
  with unchanged show ?thesis by simp
qed

theorem register_duplicate_rejected_witness:
  "ex_pending = run ex_requests_pending empty_store \<and>
   duplicate_user ex_pending ''A@X.COM'' ''S2'' \<and>
   register ex_env2
     \<lparr>r_student_id = JStr ''S2'', r_first_name = JStr ''C'', r_last_name = JStr ''D'',
      r_email = JStr ''A@X.COM'', r_password = JStr ''secret2''\<rparr> ex_pending =
     ((409, Error ''Email already registered''), ex_pending)"
proof -
  have h1: "ex_pending = run ex_requests_pending empty_store"
    by (simp add: ex_pending_def)
  have h2: "duplicate_user ex_pending ''A@X.COM'' ''S2''" by code_simp
  have b: "snd (fst (register ex_env2
     \<lparr>r_student_id = JStr ''S2'', r_first_name = JStr ''C'', r_last_name = JStr ''D'',
      r_email = JStr ''A@X.COM'', r_password = JStr ''secret2''\<rparr> ex_pending)) =
     Error ''Email already registered''" by code_simp
  have c: "register ex_env2
     \<lparr>r_student_id = JStr ''S2'', r_first_name = JStr ''C'', r_last_name = JStr ''D'',
      r_email = JStr ''A@X.COM'', r_password = JStr ''secret2''\<rparr> ex_pending =
     ((409, Error ''Email already registered''), ex_pending)"
    using register_duplicate_rejected [OF h1 h2, of ex_env2 "''C''" "''D''" "''secret2''"] b
    by (simp add: prod_eq_iff)
  show ?thesis by (intro conjI h1 h2 c)
qed

text \<open>
  C9. After any sequence of starts and writing requests from the empty database, every
  stored email is its own lower-case form. Two emails that differ only in case are the
  same input to registration, to login and to the profile update: response and resulting
  state are equal.
\<close>

theorem stored_emails_lowercase:
  "emails_lower (run reqs empty_store) \<and>
   (lower e = lower e' \<longrightarrow>
      register en (rd\<lparr>r_email := JStr e\<rparr>) st = register en (rd\<lparr>r_email := JStr e'\<rparr>) st \<and>
      login (ld\<lparr>l_email := JStr e\<rparr>) sess st = login (ld\<lparr>l_email := JStr e'\<rparr>) sess st \<and>
      update_user sess uid (pd\<lparr>p_email := JStr e\<rparr>) st =
        update_user sess uid (pd\<lparr>p_email := JStr e'\<rparr>) st)"
proof -
  have "emails_lower (run reqs empty_store)"
    by (rule reachable_emails_lower)
  moreover have "register en (rd\<lparr>r_email := JStr e\<rparr>) st =
      register en (rd\<lparr>r_email := JStr e'\<rparr>) st" if "lower e = lower e'"
    using that by (rule register_email_case)
  moreover have "login (ld\<lparr>l_email := JStr e\<rparr>) sess st =
      login (ld\<lparr>l_email := JStr e'\<rparr>) sess st" if "lower e = lower e'"
    using that by (rule login_email_case)
  moreover have "update_user sess uid (pd\<lparr>p_email := JStr e\<rparr>) st =
      update_user sess uid (pd\<lparr>p_email := JStr e'\<rparr>) st" if "lower e = lower e'"
    using that by (rule update_user_email_case)
  ultimately show ?thesis by blast
qed

theorem stored_emails_lowercase_witness:
  "lower ''A@x.com'' = lower ''a@X.COM'' \<and>
   emails_lower (run ex_requests_two empty_store) \<and>
   map u_email (users (run ex_requests_two empty_store)) =
     [''hckthon2026@gmail.com'', ''a@x.com''] \<and>
   login \<lparr>l_email = JStr ''A@x.com'', l_password = JStr ''secret1''\<rparr> ex_student ex_pending =
     login \<lparr>l_email = JStr ''a@X.COM'', l_password = JStr ''secret1''\<rparr> ex_student ex_pending"
proof -
  have h: "lower ''A@x.com'' = lower ''a@X.COM''" by code_simp
  have m: "map u_email (users (run ex_requests_two empty_store)) =
     [''hckthon2026@gmail.com'', ''a@x.com'']" by code_simp
  show ?thesis
    using stored_emails_lowercase [of ex_requests_two "''A@x.com''" "''a@X.COM''" ex_env1
        ex_register ex_pending "\<lparr>l_email = Missing, l_password = JStr ''secret1''\<rparr>"
        ex_student "''student_1_aaaaaaaa''" ex_password_only] h
    by (intro conjI h m) simp_all
qed



subsection \<open>Listing attendance\<close>

text \<open>
  C7. A query with a non-empty event id returns exactly the records of that event,
  whatever student id comes with it. A query with no event id (absent or empty) and a
  non-empty student id returns exactly the records of that student; with neither it
  returns all records. In each case the answer is 200, the records returned are the
  matching ones with their multiplicities, and they are in descending order of
  timestamp.
\<close>

theorem get_attendance_filters:
  "(ev \<noteq> [] \<longrightarrow>
      (\<exists>rs. get_attendance (Some ev) student_arg st = (200, Attendance_body rs) \<and>
            mset rs = mset (filter (\<lambda>r. a_event_id r = ev) (attendance st)) \<and>
            sorted_desc rs)) \<and>
   (falsy event_arg \<and> sid \<noteq> [] \<longrightarrow>
      (\<exists>rs. get_attendance event_arg (Some sid) st = (200, Attendance_body rs) \<and>
            mset rs = mset (filter (\<lambda>r. a_student_id r = sid) (attendance st)) \<and>
            sorted_desc rs)) \<and>
   (falsy event_arg \<and> falsy student_arg \<longrightarrow>
      (\<exists>rs. get_attendance event_arg student_arg st = (200, Attendance_body rs) \<and>
            mset rs = mset (attendance st) \<and> sorted_desc rs))"
  by (simp add: get_attendance_def order_by_mset order_by_sorted)

theorem get_attendance_filters_witness:
  "''event1'' \<noteq> [] \<and>
   map a_event_id (filter (\<lambda>r. a_event_id r = ''event1'') (attendance ex_two)) = [''event1''] \<and>
   (\<exists>rs. get_attendance (Some ''event1'') (Some ''nobody'') ex_two = (200, Attendance_body rs) \<and>
         mset rs = mset (filter (\<lambda>r. a_event_id r = ''event1'') (attendance ex_two)) \<and>
         sorted_desc rs) \<and>
   map a_event_id (response_rows (get_attendance None (Some ''student_1_aaaaaaaa'') ex_two)) =
     [''event2'', ''event1'']"
proof -
  have h: "''event1'' \<noteq> []" by simp
  have f: "map a_event_id (filter (\<lambda>r. a_event_id r = ''event1'') (attendance ex_two)) =
      [''event1'']" by code_simp
  have o: "map a_event_id (response_rows (get_attendance None (Some ''student_1_aaaaaaaa'') ex_two)) =
     [''event2'', ''event1'']" by code_simp
  have c: "\<exists>rs. get_attendance (Some ''event1'') (Some ''nobody'') ex_two =
         (200, Attendance_body rs) \<and>
         mset rs = mset (filter (\<lambda>r. a_event_id r = ''event1'') (attendance ex_two)) \<and>
         sorted_desc rs"
    using get_attendance_filters [of "''event1''" "Some ''nobody''" ex_two] h by blast
  show ?thesis by (intro conjI h f c o)
qed

end
